theory Spec2Isabelle
  imports Main
begin

section \<open>Map display property widgets (gui/wxpython/mapdisp/properties.py)\<close>

text \<open>
  The module binds four check boxes to four boolean attributes of a shared
  \<open>MapWindowProperties\<close> object. Each attribute has a change signal. A
  \<open>PropertyItem\<close> connects its \<open>_setValue\<close> method to the signal of its attribute, and
  its check box handler \<open>_onToggleCheckBox\<close> writes the attribute between a disconnect and
  a connect.

  The objects are kept in an explicit store: a \<open>PropertyItem\<close> is referred to by its
  index in the list of items, and a bound method \<open>self._setValue\<close> by \<open>SetValue self\<close>.
  Every call on a collaborator (signal, property setter, check box, redraw signal) is
  recorded in a trace, in the order in which it happens.
\<close>

subsection \<open>Data\<close>

text \<open>The four attributes of \<open>MapWindowProperties\<close> read and written by the module.\<close>

datatype property = AutoRender | AlignExtent | Resolution | ShowRegion

text \<open>
  A receiver connected to a signal: the bound method \<open>_setValue\<close> of the item with the
  given index, or a receiver that belongs to some other part of the application.
\<close>

datatype receiver = SetValue nat | Observer nat

text \<open>
  The calls that leave the module. \<open>UpdateMap kw\<close> is \<open>giface.updateMap.emit\<close>, where
  \<open>kw\<close> is the keyword argument \<open>render\<close> when one is passed.
\<close>

datatype event =
    Connected property receiver
  | Disconnected property receiver
  | PropertySet property bool
  | Emitted property bool
  | Delivered property receiver bool
  | WidgetSetValue nat bool
  | UpdateMap "bool option"

text \<open>The four subclasses of \<open>PropertyItem\<close>.\<close>

datatype kind = ChBRender | ChBAlignExtent | ChBResolution | ChBShowRegion

text \<open>
  A \<open>PropertyItem\<close> object: its class, its \<open>name\<close> and the value displayed by its
  \<open>wx.CheckBox\<close>.
\<close>

record PropertyItem =
  cls :: kind
  name :: string
  widget :: bool

text \<open>
  The world the module runs in: the attribute values of the shared
  \<open>MapWindowProperties\<close> object, the receivers connected to the change signal of each
  attribute (in connection order), the \<open>PropertyItem\<close> objects, and the trace.
\<close>

record world =
  properties :: "property \<Rightarrow> bool"
  changed :: "property \<Rightarrow> receiver list"
  items :: "PropertyItem list"
  trace :: "event list"

subsection \<open>Collaborators\<close>

text \<open>
  Modelled from the spec: the signal class is not part of the module. A signal is a
  fan-out channel with \<open>subscribe(handler)\<close> and \<open>unsubscribe(handler)\<close>, kept as an
  observer list; subscribers are invoked in subscription order.
\<close>

definition Signal_connect :: "property \<Rightarrow> receiver \<Rightarrow> world \<Rightarrow> world" where
  "Signal_connect P r w =
     w\<lparr>changed := (changed w)(P := changed w P @ [r]),
       trace := trace w @ [Connected P r]\<rparr>"

definition Signal_disconnect :: "property \<Rightarrow> receiver \<Rightarrow> world \<Rightarrow> world" where
  "Signal_disconnect P r w =
     w\<lparr>changed := (changed w)(P := remove1 r (changed w P)),
       trace := trace w @ [Disconnected P r]\<rparr>"

text \<open>
  \<open>wx.CheckBox.SetValue\<close> sets the displayed state and sends no check box event.
  A receiver of an item that does not exist cannot be called.
\<close>

definition widget_SetValue :: "nat \<Rightarrow> bool \<Rightarrow> world \<Rightarrow> world" where
  "widget_SetValue i v w =
     (if i < length (items w)
      then w\<lparr>items := (items w)[i := (items w ! i)\<lparr>widget := v\<rparr>],
             trace := trace w @ [WidgetSetValue i v]\<rparr>
      else w)"

definition widget_GetValue :: "nat \<Rightarrow> world \<Rightarrow> bool" where
  "widget_GetValue i w = widget (items w ! i)"

text \<open>\<open>PropertyItem._setValue\<close>.\<close>

definition setValue :: "nat \<Rightarrow> bool \<Rightarrow> world \<Rightarrow> world" where
  "setValue self v w = widget_SetValue self v w"

text \<open>
  Calling a receiver with the new value. A receiver outside the module is opaque: its
  invocation is recorded by the dispatch and it touches nothing of this module.
\<close>

fun call :: "receiver \<Rightarrow> bool \<Rightarrow> world \<Rightarrow> world" where
  "call (SetValue i) v w = setValue i v w"
| "call (Observer n) v w = w"

text \<open>
  Modelled from the spec: signal dispatch is synchronous, to the currently subscribed
  receivers in subscription order, each receiving the new value.
\<close>

primrec dispatch :: "property \<Rightarrow> bool \<Rightarrow> receiver list \<Rightarrow> world \<Rightarrow> world" where
  "dispatch P v [] w = w"
| "dispatch P v (r # rs) w =
     dispatch P v rs (call r v (w\<lparr>trace := trace w @ [Delivered P r v]\<rparr>))"

definition Signal_emit :: "property \<Rightarrow> bool \<Rightarrow> world \<Rightarrow> world" where
  "Signal_emit P v w = dispatch P v (changed w P) (w\<lparr>trace := trace w @ [Emitted P v]\<rparr>)"

text \<open>
  Modelled from the spec: the class \<open>MapWindowProperties\<close> is not part of the module.
  Each property has a current value and a signal that fires with the new value
  whenever the property is set, by any writer; reading a property fires nothing.
\<close>

definition store_get :: "property \<Rightarrow> world \<Rightarrow> bool" where
  "store_get P w = properties w P"

definition store_set :: "property \<Rightarrow> bool \<Rightarrow> world \<Rightarrow> world" where
  "store_set P v w =
     Signal_emit P v
       (w\<lparr>properties := (properties w)(P := v), trace := trace w @ [PropertySet P v]\<rparr>)"

text \<open>\<open>giface.updateMap.emit(...)\<close>: a request to the map display, nothing else.\<close>

definition updateMap_emit :: "bool option \<Rightarrow> world \<Rightarrow> world" where
  "updateMap_emit kw w = w\<lparr>trace := trace w @ [UpdateMap kw]\<rparr>"

text \<open>
  Modelled from the spec: the receivers of \<open>updateMap\<close> are not part of the module.
  A request is a full re-render unless it carries \<open>render=False\<close>.
\<close>

fun fullRerender :: "bool option \<Rightarrow> bool" where
  "fullRerender None = True"
| "fullRerender (Some b) = b"

subsection \<open>PropertyItem and its subclasses\<close>

text \<open>
  The attribute that the accessors \<open>mapWindowProperty\<close> and \<open>mapWindowPropertyChanged\<close>
  of each subclass refer to: \<open>autoRender\<close> and \<open>autoRenderChanged\<close> for \<open>ChBRender\<close>, and
  so on. A signal is identified by its attribute.
\<close>

fun bound :: "kind \<Rightarrow> property" where
  "bound ChBRender = AutoRender"
| "bound ChBAlignExtent = AlignExtent"
| "bound ChBResolution = Resolution"
| "bound ChBShowRegion = ShowRegion"

definition mapWindowProperty :: "nat \<Rightarrow> world \<Rightarrow> bool" where
  "mapWindowProperty self w = store_get (bound (cls (items w ! self))) w"

definition mapWindowProperty_setter :: "nat \<Rightarrow> bool \<Rightarrow> world \<Rightarrow> world" where
  "mapWindowProperty_setter self v w = store_set (bound (cls (items w ! self))) v w"

definition mapWindowPropertyChanged :: "nat \<Rightarrow> world \<Rightarrow> property" where
  "mapWindowPropertyChanged self w = bound (cls (items w ! self))"

definition connect :: "nat \<Rightarrow> world \<Rightarrow> world" where
  "connect self w = Signal_connect (mapWindowPropertyChanged self w) (SetValue self) w"

definition disconnect :: "nat \<Rightarrow> world \<Rightarrow> world" where
  "disconnect self w = Signal_disconnect (mapWindowPropertyChanged self w) (SetValue self) w"

text \<open>\<open>PropertyItem._onToggleCheckBox\<close>.\<close>

definition PropertyItem_onToggleCheckBox :: "nat \<Rightarrow> world \<Rightarrow> world" where
  "PropertyItem_onToggleCheckBox self w =
     (let w1 = disconnect self w;
          w2 = mapWindowProperty_setter self (widget_GetValue self w1) w1
      in connect self w2)"

text \<open>\<open>ChBResolution._onToggleCheckBox\<close>: the base handler, then \<open>updateMap.emit()\<close>.\<close>

definition ChBResolution_onToggleCheckBox :: "nat \<Rightarrow> world \<Rightarrow> world" where
  "ChBResolution_onToggleCheckBox self w =
     (let w1 = PropertyItem_onToggleCheckBox self w
      in if store_get AutoRender w1 then updateMap_emit None w1 else w1)"

text \<open>
  \<open>ChBShowRegion._onToggleCheckBox\<close>: the base handler, then
  \<open>updateMap.emit(render=False)\<close>.
\<close>

definition ChBShowRegion_onToggleCheckBox :: "nat \<Rightarrow> world \<Rightarrow> world" where
  "ChBShowRegion_onToggleCheckBox self w =
     (let w1 = PropertyItem_onToggleCheckBox self w
      in if store_get AutoRender w1 then updateMap_emit (Some False) w1 else w1)"

text \<open>Method resolution: the handler that \<open>self._onToggleCheckBox\<close> denotes.\<close>

definition onToggleCheckBox :: "nat \<Rightarrow> world \<Rightarrow> world" where
  "onToggleCheckBox self w =
     (case cls (items w ! self) of
        ChBRender \<Rightarrow> PropertyItem_onToggleCheckBox self w
      | ChBAlignExtent \<Rightarrow> PropertyItem_onToggleCheckBox self w
      | ChBResolution \<Rightarrow> ChBResolution_onToggleCheckBox self w
      | ChBShowRegion \<Rightarrow> ChBShowRegion_onToggleCheckBox self w)"

text \<open>
  The constructors. The new object gets the next free index; its check box is created
  unchecked, seeded from the attribute, and the item connects last.
\<close>

definition new_CheckBox :: "kind \<Rightarrow> string \<Rightarrow> world \<Rightarrow> nat \<times> world" where
  "new_CheckBox k nm w =
     (length (items w), w\<lparr>items := items w @ [\<lparr>cls = k, name = nm, widget = False\<rparr>]\<rparr>)"

definition ChBRender_init :: "world \<Rightarrow> nat \<times> world" where
  "ChBRender_init w =
     (let (self, w1) = new_CheckBox ChBRender ''render'' w;
          w2 = widget_SetValue self (mapWindowProperty self w1) w1
      in (self, connect self w2))"

definition ChBAlignExtent_init :: "world \<Rightarrow> nat \<times> world" where
  "ChBAlignExtent_init w =
     (let (self, w1) = new_CheckBox ChBAlignExtent ''alignExtent'' w;
          w2 = widget_SetValue self (mapWindowProperty self w1) w1
      in (self, connect self w2))"

definition ChBResolution_init :: "world \<Rightarrow> nat \<times> world" where
  "ChBResolution_init w =
     (let (self, w1) = new_CheckBox ChBResolution ''resolution'' w;
          w2 = widget_SetValue self (mapWindowProperty self w1) w1
      in (self, connect self w2))"

definition ChBShowRegion_init :: "world \<Rightarrow> nat \<times> world" where
  "ChBShowRegion_init w =
     (let (self, w1) = new_CheckBox ChBShowRegion ''region'' w;
          w2 = widget_SetValue self (mapWindowProperty self w1) w1
      in (self, connect self w2))"

text \<open>Constructing an item of a given class.\<close>

fun construct :: "kind \<Rightarrow> world \<Rightarrow> nat \<times> world" where
  "construct ChBRender w = ChBRender_init w"
| "construct ChBAlignExtent w = ChBAlignExtent_init w"
| "construct ChBResolution w = ChBResolution_init w"
| "construct ChBShowRegion w = ChBShowRegion_init w"

text \<open>
  \<open>MapDisplayPropertiesDialog._createDisplayPage\<close>, without the layout: the four items
  are created in this order.
\<close>

definition createDisplayPage :: "world \<Rightarrow> world" where
  "createDisplayPage w =
     snd (ChBShowRegion_init (snd (ChBResolution_init
       (snd (ChBAlignExtent_init (snd (ChBRender_init w)))))))"

subsection \<open>The environment\<close>

text \<open>The user's click: the check box of item \<open>i\<close> now displays \<open>v\<close>.\<close>

definition clicked :: "nat \<Rightarrow> bool \<Rightarrow> world \<Rightarrow> world" where
  "clicked i v w = w\<lparr>items := (items w)[i := (items w ! i)\<lparr>widget := v\<rparr>]\<rparr>"

text \<open>
  A user toggle: after the click the handler bound to \<open>wx.EVT_CHECKBOX\<close> runs. Only the
  check box of an existing item can be toggled.
\<close>

definition user_toggle :: "nat \<Rightarrow> bool \<Rightarrow> world \<Rightarrow> world" where
  "user_toggle i v w =
     (if i < length (items w) then onToggleCheckBox i (clicked i v w) else w)"

text \<open>A world before any item is constructed.\<close>

definition initial :: "(property \<Rightarrow> bool) \<Rightarrow> world" where
  "initial vals = \<lparr>properties = vals, changed = (\<lambda>_. []), items = [], trace = []\<rparr>"

text \<open>
  The states reachable from an initial world by constructing items, user toggles,
  property writes from outside the items, and other receivers coming and going.
\<close>

inductive reachable :: "world \<Rightarrow> bool" where
  r_initial: "reachable (initial vals)"
| r_construct: "reachable w \<Longrightarrow> reachable (snd (construct k w))"
| r_toggle: "reachable w \<Longrightarrow> i < length (items w) \<Longrightarrow> reachable (user_toggle i v w)"
| r_write: "reachable w \<Longrightarrow> reachable (store_set P v w)"
| r_observe: "reachable w \<Longrightarrow> reachable (Signal_connect P (Observer n) w)"
| r_unobserve: "reachable w \<Longrightarrow> reachable (Signal_disconnect P (Observer n) w)"

text \<open>The events recorded between an earlier world and a later one.\<close>

definition new_events :: "world \<Rightarrow> world \<Rightarrow> event list" where
  "new_events w w' = drop (length (trace w)) (trace w')"

subsection \<open>Reading the trace\<close>

text \<open>
  What one receiver adds to the trace when the value \<open>v\<close> of \<open>P\<close> is delivered to it
  in a world with \<open>n\<close> items: the delivery itself and, for the \<open>_setValue\<close> of an
  existing item, the call of \<open>SetValue\<close> on its check box.
\<close>

fun delivery :: "property \<Rightarrow> bool \<Rightarrow> nat \<Rightarrow> receiver \<Rightarrow> event list" where
  "delivery P v n (SetValue i) =
     Delivered P (SetValue i) v # (if i < n then [WidgetSetValue i v] else [])"
| "delivery P v n (Observer k) = [Delivered P (Observer k) v]"

text \<open>
  Kinds of events: the steps of the toggle protocol (disconnect, property write,
  connect), property writes, signal firings, deliveries to a receiver, and redraw
  requests.
\<close>

fun is_step :: "event \<Rightarrow> bool" where
  "is_step (Connected P r) = True"
| "is_step (Disconnected P r) = True"
| "is_step (PropertySet P v) = True"
| "is_step e = False"

fun is_write :: "event \<Rightarrow> bool" where
  "is_write (PropertySet P v) = True"
| "is_write e = False"

fun is_emit :: "event \<Rightarrow> bool" where
  "is_emit (Emitted P v) = True"
| "is_emit e = False"

fun is_delivery :: "event \<Rightarrow> bool" where
  "is_delivery (Delivered P r v) = True"
| "is_delivery e = False"

fun is_redraw :: "event \<Rightarrow> bool" where
  "is_redraw (UpdateMap kw) = True"
| "is_redraw e = False"

text \<open>
  The redraw request that the handler of each class adds after the base handler, given
  the value of \<open>autoRender\<close> at that moment.
\<close>

fun redraw :: "kind \<Rightarrow> bool \<Rightarrow> event list" where
  "redraw ChBResolution True = [UpdateMap None]"
| "redraw ChBShowRegion True = [UpdateMap (Some False)]"
| "redraw k a = []"

subsection \<open>The states of an item\<close>

text \<open>
  How often the \<open>_setValue\<close> of item \<open>i\<close> is connected to the signal of its attribute.
  An item is \<open>Subscribed\<close> when that is once and \<open>Updating\<close> when it is not connected.
\<close>

definition subscriptions :: "nat \<Rightarrow> world \<Rightarrow> nat" where
  "subscriptions i w = count_list (changed w (mapWindowPropertyChanged i w)) (SetValue i)"

definition Subscribed :: "nat \<Rightarrow> world \<Rightarrow> bool" where
  "Subscribed i w \<longleftrightarrow> subscriptions i w = 1"


text \<open>
  Every \<open>_setValue\<close> is connected once to the signal of its own item's attribute and
  to no other signal, and no receiver refers to an item that does not exist.
\<close>

definition well_connected :: "world \<Rightarrow> bool" where
  "well_connected w \<longleftrightarrow>
     (\<forall>i P. count_list (changed w P) (SetValue i) =
        (if i < length (items w) \<and> P = bound (cls (items w ! i)) then 1 else 0))"

text \<open>
  The worlds a dispatch passes through: before the first delivery and after each one.
\<close>

primrec dispatch_worlds :: "property \<Rightarrow> bool \<Rightarrow> receiver list \<Rightarrow> world \<Rightarrow> world list" where
  "dispatch_worlds P v [] w = [w]"
| "dispatch_worlds P v (r # rs) w =
     w # dispatch_worlds P v rs (call r v (w\<lparr>trace := trace w @ [Delivered P r v]\<rparr>))"

text \<open>
  The worlds a user toggle of item \<open>i\<close> passes through between the disconnect and the
  connect of the base handler: right after the disconnect, after the property is
  written, and then before, between and after the deliveries of the signal.
\<close>

definition during_toggle :: "nat \<Rightarrow> bool \<Rightarrow> world \<Rightarrow> world list" where
  "during_toggle i v w =
     (let w1 = disconnect i (clicked i v w);
          P = bound (cls (items w1 ! i));
          x = widget_GetValue i w1;
          w2 = w1\<lparr>properties := (properties w1)(P := x), trace := trace w1 @ [PropertySet P x]\<rparr>
      in w1 # w2 # dispatch_worlds P x (changed w2 P) (w2\<lparr>trace := trace w2 @ [Emitted P x]\<rparr>))"

subsection \<open>Example worlds\<close>

text \<open>
  All four attributes are false and the dialog page has created its four items; then
  another receiver connects to \<open>autoRenderChanged\<close>, or the user switches
  auto-rendering on.
\<close>

definition scenario :: world where
  "scenario = createDisplayPage (initial (\<lambda>_. False))"

definition observed :: world where
  "observed = Signal_connect AutoRender (Observer 0) scenario"

definition render_on :: world where
  "render_on = user_toggle 0 True scenario"

section \<open>Frame properties of the collaborators\<close>

lemma widget_SetValue_properties [simp]: "properties (widget_SetValue i v w) = properties w"
  by (simp add: widget_SetValue_def)

lemma widget_SetValue_changed [simp]: "changed (widget_SetValue i v w) = changed w"
  by (simp add: widget_SetValue_def)

lemma widget_SetValue_length [simp]:
  "length (items (widget_SetValue i v w)) = length (items w)"
  by (simp add: widget_SetValue_def)

lemma widget_SetValue_cls [simp]:
  "cls (items (widget_SetValue i v w) ! j) = cls (items w ! j)"
  by (simp add: widget_SetValue_def nth_list_update)

lemma widget_SetValue_widget:
  "widget (items (widget_SetValue i v w) ! j) =
     (if j = i \<and> i < length (items w) then v else widget (items w ! j))"
  by (simp add: widget_SetValue_def nth_list_update)

lemma widget_SetValue_trace:
  "trace (widget_SetValue i v w) =
     trace w @ (if i < length (items w) then [WidgetSetValue i v] else [])"
  by (simp add: widget_SetValue_def)

lemma call_properties [simp]: "properties (call r v w) = properties w"
  by (cases r) (simp_all add: setValue_def)

lemma call_changed [simp]: "changed (call r v w) = changed w"
  by (cases r) (simp_all add: setValue_def)

lemma call_length [simp]: "length (items (call r v w)) = length (items w)"
  by (cases r) (simp_all add: setValue_def)

lemma call_cls [simp]: "cls (items (call r v w) ! j) = cls (items w ! j)"
  by (cases r) (simp_all add: setValue_def)

lemma call_widget:
  "widget (items (call r v w) ! j) =
     (if r = SetValue j \<and> j < length (items w) then v else widget (items w ! j))"
  by (cases r) (auto simp add: setValue_def widget_SetValue_widget)

lemma call_trace:
  "trace (call r v (w\<lparr>trace := trace w @ [Delivered P r v]\<rparr>)) =
     trace w @ delivery P v (length (items w)) r"
  by (cases r) (simp_all add: setValue_def widget_SetValue_trace)

lemma dispatch_properties [simp]: "properties (dispatch P v rs w) = properties w"
  by (induction rs arbitrary: w) simp_all

lemma dispatch_changed [simp]: "changed (dispatch P v rs w) = changed w"
  by (induction rs arbitrary: w) simp_all

lemma dispatch_length [simp]: "length (items (dispatch P v rs w)) = length (items w)"
  by (induction rs arbitrary: w) simp_all

lemma dispatch_cls [simp]: "cls (items (dispatch P v rs w) ! j) = cls (items w ! j)"
  by (induction rs arbitrary: w) simp_all

lemma dispatch_widget:
  "widget (items (dispatch P v rs w) ! j) =
     (if SetValue j \<in> set rs \<and> j < length (items w) then v else widget (items w ! j))"
proof (induction rs arbitrary: w)
  case Nil
  show ?case by simp
next
  case (Cons r rs)
  show ?case by (cases r) (auto simp add: Cons.IH setValue_def widget_SetValue_widget)
qed

lemma dispatch_trace:
  "trace (dispatch P v rs w) = trace w @ concat (map (delivery P v (length (items w))) rs)"
proof (induction rs arbitrary: w)
  case Nil
  show ?case by simp
next
  case (Cons r rs)
  have "trace (dispatch P v (r # rs) w) =
          trace (call r v (w\<lparr>trace := trace w @ [Delivered P r v]\<rparr>)) @
          concat (map (delivery P v (length (items w))) rs)"
    by (simp add: Cons.IH)
  then show ?case by (simp add: call_trace)
qed

lemma store_set_properties: "properties (store_set P v w) = (properties w)(P := v)"
  by (simp add: store_set_def Signal_emit_def)

lemma store_set_changed [simp]: "changed (store_set P v w) = changed w"
  by (simp add: store_set_def Signal_emit_def)

lemma store_set_length [simp]: "length (items (store_set P v w)) = length (items w)"
  by (simp add: store_set_def Signal_emit_def)

lemma store_set_cls [simp]: "cls (items (store_set P v w) ! j) = cls (items w ! j)"
  by (simp add: store_set_def Signal_emit_def)

lemma store_set_widget:
  "widget (items (store_set P v w) ! j) =
     (if SetValue j \<in> set (changed w P) \<and> j < length (items w) then v
      else widget (items w ! j))"
  by (simp add: store_set_def Signal_emit_def dispatch_widget)

lemma store_set_trace:
  "trace (store_set P v w) =
     trace w @ PropertySet P v # Emitted P v #
       concat (map (delivery P v (length (items w))) (changed w P))"
  by (simp add: store_set_def Signal_emit_def dispatch_trace)

lemma new_events_append: "trace w' = trace w @ es \<Longrightarrow> new_events w w' = es"
  by (simp add: new_events_def)

text \<open>The base handler, field by field.\<close>

lemma base_toggle_trace:
  "trace (PropertyItem_onToggleCheckBox i w) =
     trace w @
       Disconnected (bound (cls (items w ! i))) (SetValue i) #
       PropertySet (bound (cls (items w ! i))) (widget (items w ! i)) #
       Emitted (bound (cls (items w ! i))) (widget (items w ! i)) #
       concat (map (delivery (bound (cls (items w ! i))) (widget (items w ! i)) (length (items w)))
                 (remove1 (SetValue i) (changed w (bound (cls (items w ! i)))))) @
       [Connected (bound (cls (items w ! i))) (SetValue i)]"
  by (simp add: PropertyItem_onToggleCheckBox_def Let_def connect_def disconnect_def
      mapWindowPropertyChanged_def mapWindowProperty_setter_def widget_GetValue_def
      Signal_connect_def Signal_disconnect_def store_set_trace)

lemma base_toggle_changed:
  "changed (PropertyItem_onToggleCheckBox i w) =
     (changed w)(bound (cls (items w ! i)) :=
        remove1 (SetValue i) (changed w (bound (cls (items w ! i)))) @ [SetValue i])"
  by (simp add: PropertyItem_onToggleCheckBox_def Let_def connect_def disconnect_def
      mapWindowPropertyChanged_def mapWindowProperty_setter_def widget_GetValue_def
      Signal_connect_def Signal_disconnect_def)

lemma base_toggle_properties:
  "properties (PropertyItem_onToggleCheckBox i w) =
     (properties w)(bound (cls (items w ! i)) := widget (items w ! i))"
  by (simp add: PropertyItem_onToggleCheckBox_def Let_def connect_def disconnect_def
      mapWindowPropertyChanged_def mapWindowProperty_setter_def widget_GetValue_def
      Signal_connect_def Signal_disconnect_def store_set_properties)

lemma base_toggle_length [simp]:
  "length (items (PropertyItem_onToggleCheckBox i w)) = length (items w)"
  by (simp add: PropertyItem_onToggleCheckBox_def Let_def connect_def disconnect_def
      mapWindowProperty_setter_def Signal_connect_def Signal_disconnect_def)

lemma base_toggle_cls [simp]:
  "cls (items (PropertyItem_onToggleCheckBox i w) ! j) = cls (items w ! j)"
  by (simp add: PropertyItem_onToggleCheckBox_def Let_def connect_def disconnect_def
      mapWindowProperty_setter_def Signal_connect_def Signal_disconnect_def)

lemma base_toggle_widget:
  "widget (items (PropertyItem_onToggleCheckBox i w) ! j) =
     (if SetValue j \<in> set (remove1 (SetValue i) (changed w (bound (cls (items w ! i)))))
         \<and> j < length (items w)
      then widget (items w ! i) else widget (items w ! j))"
  by (simp add: PropertyItem_onToggleCheckBox_def Let_def connect_def disconnect_def
      mapWindowPropertyChanged_def mapWindowProperty_setter_def widget_GetValue_def
      Signal_connect_def Signal_disconnect_def store_set_widget)

section \<open>Events of a dispatch\<close>

lemma deliveries_no_step [simp]: "filter is_step (concat (map (delivery P v n) rs)) = []"
proof (induction rs)
  case Nil
  show ?case by simp
next
  case (Cons r rs)
  then show ?case by (cases r) simp_all
qed

lemma deliveries_no_write [simp]: "filter is_write (concat (map (delivery P v n) rs)) = []"
proof (induction rs)
  case Nil
  show ?case by simp
next
  case (Cons r rs)
  then show ?case by (cases r) simp_all
qed

lemma deliveries_no_emit [simp]: "filter is_emit (concat (map (delivery P v n) rs)) = []"
proof (induction rs)
  case Nil
  show ?case by simp
next
  case (Cons r rs)
  then show ?case by (cases r) simp_all
qed

lemma deliveries_no_redraw [simp]: "filter is_redraw (concat (map (delivery P v n) rs)) = []"
proof (induction rs)
  case Nil
  show ?case by simp
next
  case (Cons r rs)
  then show ?case by (cases r) simp_all
qed

lemma deliveries_delivered [simp]:
  "filter is_delivery (concat (map (delivery P v n) rs)) = map (\<lambda>r. Delivered P r v) rs"
proof (induction rs)
  case Nil
  show ?case by simp
next
  case (Cons r rs)
  then show ?case by (cases r) simp_all
qed

lemma deliveries_widget_set:
  "WidgetSetValue i u \<in> set (concat (map (delivery P v n) rs)) \<longleftrightarrow>
     u = v \<and> SetValue i \<in> set rs \<and> i < n"
proof (induction rs)
  case Nil
  show ?case by simp
next
  case (Cons r rs)
  then show ?case by (cases r) auto
qed

lemma deliveries_receiver:
  "Delivered Q r u \<in> set (concat (map (delivery P v n) rs)) \<longleftrightarrow>
     Q = P \<and> u = v \<and> r \<in> set rs"
proof (induction rs)
  case Nil
  show ?case by simp
next
  case (Cons r' rs)
  then show ?case by (cases r') auto
qed

lemma redraw_filters [simp]:
  "filter is_step (redraw k a) = []"
  "filter is_write (redraw k a) = []"
  "filter is_emit (redraw k a) = []"
  "filter is_delivery (redraw k a) = []"
  "filter is_redraw (redraw k a) = redraw k a"
  by (cases k; cases a; simp)+

lemma count_list_remove1:
  "count_list (remove1 x xs) y = (if x = y then count_list xs y - 1 else count_list xs y)"
  by (induction xs) auto

lemma once_removed: "count_list xs x = 1 \<Longrightarrow> x \<notin> set (remove1 x xs)"
  by (simp add: count_list_remove1 flip: count_list_0_iff)

text \<open>The handler chosen by the class of the item.\<close>

section \<open>The toggle handlers\<close>

lemma onToggle_trace:
  "trace (onToggleCheckBox i w) =
     trace (PropertyItem_onToggleCheckBox i w) @
       redraw (cls (items w ! i)) (properties (PropertyItem_onToggleCheckBox i w) AutoRender)"
  by (cases "cls (items w ! i)")
     (simp_all add: onToggleCheckBox_def ChBResolution_onToggleCheckBox_def
        ChBShowRegion_onToggleCheckBox_def Let_def store_get_def updateMap_emit_def
        base_toggle_properties)

lemma onToggle_properties:
  "properties (onToggleCheckBox i w) = properties (PropertyItem_onToggleCheckBox i w)"
  by (cases "cls (items w ! i)")
     (simp_all add: onToggleCheckBox_def ChBResolution_onToggleCheckBox_def
        ChBShowRegion_onToggleCheckBox_def Let_def updateMap_emit_def)

lemma onToggle_changed:
  "changed (onToggleCheckBox i w) = changed (PropertyItem_onToggleCheckBox i w)"
  by (cases "cls (items w ! i)")
     (simp_all add: onToggleCheckBox_def ChBResolution_onToggleCheckBox_def
        ChBShowRegion_onToggleCheckBox_def Let_def updateMap_emit_def)

lemma onToggle_items:
  "items (onToggleCheckBox i w) = items (PropertyItem_onToggleCheckBox i w)"
  by (cases "cls (items w ! i)")
     (simp_all add: onToggleCheckBox_def ChBResolution_onToggleCheckBox_def
        ChBShowRegion_onToggleCheckBox_def Let_def updateMap_emit_def)

text \<open>A user toggle, field by field.\<close>

lemma user_toggle_trace:
  assumes "i < length (items w)"
  shows "trace (user_toggle i v w) =
     trace w @
       Disconnected (bound (cls (items w ! i))) (SetValue i) #
       PropertySet (bound (cls (items w ! i))) v #
       Emitted (bound (cls (items w ! i))) v #
       concat (map (delivery (bound (cls (items w ! i))) v (length (items w)))
                 (remove1 (SetValue i) (changed w (bound (cls (items w ! i)))))) @
       Connected (bound (cls (items w ! i))) (SetValue i) #
       redraw (cls (items w ! i)) (((properties w)(bound (cls (items w ! i)) := v)) AutoRender)"
  using assms
  by (simp add: user_toggle_def clicked_def onToggle_trace base_toggle_trace base_toggle_properties)

lemma user_toggle_properties:
  assumes "i < length (items w)"
  shows "properties (user_toggle i v w) = (properties w)(bound (cls (items w ! i)) := v)"
  using assms by (simp add: user_toggle_def clicked_def onToggle_properties base_toggle_properties)

lemma user_toggle_changed:
  assumes "i < length (items w)"
  shows "changed (user_toggle i v w) =
     (changed w)(bound (cls (items w ! i)) :=
        remove1 (SetValue i) (changed w (bound (cls (items w ! i)))) @ [SetValue i])"
  using assms by (simp add: user_toggle_def clicked_def onToggle_changed base_toggle_changed)

lemma user_toggle_length [simp]: "length (items (user_toggle i v w)) = length (items w)"
  by (simp add: user_toggle_def clicked_def onToggle_items)

lemma user_toggle_cls [simp]: "cls (items (user_toggle i v w) ! j) = cls (items w ! j)"
  by (simp add: user_toggle_def clicked_def onToggle_items nth_list_update)

lemma user_toggle_widget:
  assumes "i < length (items w)"
  shows "widget (items (user_toggle i v w) ! j) =
     (if j = i \<or> SetValue j \<in> set (remove1 (SetValue i) (changed w (bound (cls (items w ! i)))))
                \<and> j < length (items w)
      then v else widget (items w ! j))"
  using assms
  by (auto simp add: user_toggle_def clicked_def onToggle_items base_toggle_widget nth_list_update
      in_set_remove1)

section \<open>The constructors\<close>

lemmas init_defs =
  ChBRender_init_def ChBAlignExtent_init_def ChBResolution_init_def ChBShowRegion_init_def
  new_CheckBox_def Let_def widget_SetValue_def mapWindowProperty_def store_get_def
  connect_def mapWindowPropertyChanged_def Signal_connect_def

lemma construct_fst: "fst (construct k w) = length (items w)"
  by (cases k) (simp_all add: init_defs)

lemma construct_trace:
  "trace (snd (construct k w)) =
     trace w @ [WidgetSetValue (length (items w)) (properties w (bound k)),
                Connected (bound k) (SetValue (length (items w)))]"
  by (cases k) (simp_all add: init_defs)

lemma construct_properties [simp]: "properties (snd (construct k w)) = properties w"
  by (cases k) (simp_all add: init_defs)

lemma construct_changed:
  "changed (snd (construct k w)) =
     (changed w)(bound k := changed w (bound k) @ [SetValue (length (items w))])"
  by (cases k) (simp_all add: init_defs)

lemma construct_length [simp]: "length (items (snd (construct k w))) = Suc (length (items w))"
  by (cases k) (simp_all add: init_defs)

lemma construct_nth_old:
  "j < length (items w) \<Longrightarrow> items (snd (construct k w)) ! j = items w ! j"
  by (cases k) (simp_all add: init_defs nth_append)

lemma construct_cls_new [simp]: "cls (items (snd (construct k w)) ! length (items w)) = k"
  by (cases k) (simp_all add: init_defs)

lemma construct_widget_new:
  "widget (items (snd (construct k w)) ! length (items w)) = properties w (bound k)"
  by (cases k) (simp_all add: init_defs)

section \<open>Worlds between the disconnect and the connect\<close>

lemma dispatch_worlds_not_Nil [simp]: "dispatch_worlds P v rs w \<noteq> []"
  by (cases rs) simp_all


lemma dispatch_worlds_frame:
  "w' \<in> set (dispatch_worlds P v rs w) \<Longrightarrow>
     changed w' = changed w \<and> properties w' = properties w \<and>
     length (items w') = length (items w) \<and> cls (items w' ! j) = cls (items w ! j)"
proof (induction rs arbitrary: w)
  case Nil
  then show ?case by simp
next
  case (Cons r rs)
  from Cons.prems have "w' = w \<or>
      w' \<in> set (dispatch_worlds P v rs (call r v (w\<lparr>trace := trace w @ [Delivered P r v]\<rparr>)))"
    by simp
  then show ?case
  proof
    assume "w' = w"
    then show ?thesis by simp
  next
    assume "w' \<in> set (dispatch_worlds P v rs (call r v (w\<lparr>trace := trace w @ [Delivered P r v]\<rparr>)))"
    from Cons.IH [OF this] show ?thesis by simp
  qed
qed


lemma during_toggle_frame:
  assumes "i < length (items w)" and "w' \<in> set (during_toggle i v w)"
  shows "changed w' = (changed w)(bound (cls (items w ! i)) :=
             remove1 (SetValue i) (changed w (bound (cls (items w ! i)))))"
    and "length (items w') = length (items w)"
    and "cls (items w' ! j) = cls (items w ! j)"
    and "Q \<noteq> bound (cls (items w ! i)) \<Longrightarrow> properties w' Q = properties w Q"
  using assms
  by (auto simp add: during_toggle_def clicked_def Let_def disconnect_def Signal_disconnect_def
      mapWindowPropertyChanged_def widget_GetValue_def nth_list_update
      dest!: dispatch_worlds_frame [where j = j])

lemma count_once_remove1:
  "count_list xs x \<le> 1 \<Longrightarrow> remove1 x xs = filter (\<lambda>r. r \<noteq> x) xs"
proof (induction xs)
  case Nil
  show ?case by simp
next
  case (Cons y ys)
  show ?case
  proof (cases "y = x")
    case True
    with Cons.prems have "count_list ys x = 0" by simp
    then have "x \<notin> set ys" by (simp add: count_list_0_iff)
    then have "filter (\<lambda>r. r \<noteq> x) ys = ys" by (auto simp add: filter_id_conv)
    with True show ?thesis by simp
  next
    case False
    with Cons.prems have "count_list ys x \<le> 1" by simp
    with Cons.IH False show ?thesis by auto
  qed
qed

subsection \<open>The subscription invariant\<close>

lemma well_connected_initial: "well_connected (initial vals)"
  by (simp add: well_connected_def initial_def)

lemma well_connected_count:
  "well_connected w \<Longrightarrow>
     count_list (changed w P) (SetValue i) =
       (if i < length (items w) \<and> P = bound (cls (items w ! i)) then 1 else 0)"
  by (simp add: well_connected_def)

lemma well_connected_construct:
  assumes "well_connected w"
  shows "well_connected (snd (construct k w))"
  unfolding well_connected_def
proof (intro allI)
  fix i P
  note old = well_connected_count [OF assms]
  consider "i < length (items w)" | "i = length (items w)" | "length (items w) < i"
    by linarith
  then show "count_list (changed (snd (construct k w)) P) (SetValue i) =
      (if i < length (items (snd (construct k w))) \<and>
          P = bound (cls (items (snd (construct k w)) ! i)) then 1 else 0)"
  proof cases
    case 1
    then show ?thesis by (simp add: construct_changed construct_nth_old old)
  next
    case 2
    then show ?thesis by (simp add: construct_changed old)
  next
    case 3
    then show ?thesis by (simp add: construct_changed old)
  qed
qed

lemma well_connected_toggle:
  assumes "well_connected w" and "i < length (items w)"
  shows "well_connected (user_toggle i v w)"
  unfolding well_connected_def
proof (intro allI)
  fix j P
  note old = well_connected_count [OF assms(1)]
  show "count_list (changed (user_toggle i v w) P) (SetValue j) =
      (if j < length (items (user_toggle i v w)) \<and>
          P = bound (cls (items (user_toggle i v w) ! j)) then 1 else 0)"
  proof (cases "P = bound (cls (items w ! i))")
    case True
    with assms(2) show ?thesis
      by (simp add: user_toggle_changed count_list_remove1 old)
  next
    case False
    with assms(2) show ?thesis
      by (simp add: user_toggle_changed old)
  qed
qed

lemma well_connected_write:
  assumes "well_connected w"
  shows "well_connected (store_set P v w)"
  using assms by (simp add: well_connected_def)

lemma well_connected_observe:
  assumes "well_connected w"
  shows "well_connected (Signal_connect P (Observer n) w)"
  using assms by (simp add: well_connected_def Signal_connect_def)

lemma well_connected_unobserve:
  assumes "well_connected w"
  shows "well_connected (Signal_disconnect P (Observer n) w)"
  using assms by (simp add: well_connected_def Signal_disconnect_def count_list_remove1)

lemma reachable_well_connected: "reachable w \<Longrightarrow> well_connected w"
proof (induction rule: reachable.induct)
  case (r_initial vals)
  show ?case by (rule well_connected_initial)
next
  case (r_construct w k)
  then show ?case by (simp add: well_connected_construct)
next
  case (r_toggle w i v)
  then show ?case by (simp add: well_connected_toggle)
next
  case (r_write w P v)
  then show ?case by (simp add: well_connected_write)
next
  case (r_observe w P n)
  then show ?case by (simp add: well_connected_observe)
next
  case (r_unobserve w P n)
  then show ?case by (simp add: well_connected_unobserve)
qed

lemma well_connected_Subscribed:
  "well_connected w \<Longrightarrow> i < length (items w) \<Longrightarrow> Subscribed i w"
  by (simp add: well_connected_def Subscribed_def subscriptions_def mapWindowPropertyChanged_def)

section \<open>The example worlds\<close>

lemma scenario_items:
  "items scenario =
     [\<lparr>cls = ChBRender, name = ''render'', widget = False\<rparr>,
      \<lparr>cls = ChBAlignExtent, name = ''alignExtent'', widget = False\<rparr>,
      \<lparr>cls = ChBResolution, name = ''resolution'', widget = False\<rparr>,
      \<lparr>cls = ChBShowRegion, name = ''region'', widget = False\<rparr>]"
  by (simp add: scenario_def createDisplayPage_def initial_def init_defs)

lemma scenario_properties: "properties scenario = (\<lambda>_. False)"
  by (simp add: scenario_def createDisplayPage_def initial_def init_defs)

lemma scenario_changed:
  "changed scenario AutoRender = [SetValue 0]"
  "changed scenario AlignExtent = [SetValue 1]"
  "changed scenario Resolution = [SetValue 2]"
  "changed scenario ShowRegion = [SetValue 3]"
  by (simp_all add: scenario_def createDisplayPage_def initial_def init_defs)

lemma scenario_trace:
  "trace scenario =
     [WidgetSetValue 0 False, Connected AutoRender (SetValue 0),
      WidgetSetValue 1 False, Connected AlignExtent (SetValue 1),
      WidgetSetValue 2 False, Connected Resolution (SetValue 2),
      WidgetSetValue 3 False, Connected ShowRegion (SetValue 3)]"
  by (simp add: scenario_def createDisplayPage_def initial_def init_defs)

lemma scenario_reachable: "reachable scenario"
proof -
  have "reachable (snd (construct ChBShowRegion (snd (construct ChBResolution
          (snd (construct ChBAlignExtent (snd (construct ChBRender (initial (\<lambda>_. False))))))))))"
    by (intro r_construct r_initial)
  then show ?thesis by (simp add: scenario_def createDisplayPage_def)
qed

lemma scenario_length: "length (items scenario) = 4"
  by (simp add: scenario_items)

lemma scenario_cls:
  "cls (items scenario ! 0) = ChBRender"
  "cls (items scenario ! Suc 0) = ChBAlignExtent"
  "cls (items scenario ! 2) = ChBResolution"
  "cls (items scenario ! 3) = ChBShowRegion"
  by (simp_all add: scenario_items)

lemma scenario_widget:
  "widget (items scenario ! 0) = False"
  "widget (items scenario ! Suc 0) = False"
  "widget (items scenario ! 2) = False"
  "widget (items scenario ! 3) = False"
  by (simp_all add: scenario_items)

lemma observed_fields:
  "items observed = items scenario"
  "properties observed = properties scenario"
  "changed observed AutoRender = [SetValue 0, Observer 0]"
  by (simp_all add: observed_def Signal_connect_def scenario_changed)

lemma render_on_fields:
  "length (items render_on) = 4"
  "cls (items render_on ! j) = cls (items scenario ! j)"
  "properties render_on P = (P = AutoRender)"
  "changed render_on = changed scenario"
  by (auto simp add: render_on_def user_toggle_properties user_toggle_changed scenario_length
      scenario_cls scenario_properties scenario_changed)

section \<open>Events of the operations\<close>

lemma clicked_fields [simp]:
  "properties (clicked i v w) = properties w"
  "changed (clicked i v w) = changed w"
  "trace (clicked i v w) = trace w"
  "length (items (clicked i v w)) = length (items w)"
  by (simp_all add: clicked_def)

lemma clicked_cls [simp]: "cls (items (clicked i v w) ! j) = cls (items w ! j)"
  by (cases "i < length (items w)") (simp_all add: clicked_def nth_list_update list_update_beyond)

lemma clicked_widget: "i < length (items w) \<Longrightarrow> widget (items (clicked i v w) ! i) = v"
  by (simp add: clicked_def)

lemma base_toggle_events:
  "new_events w (PropertyItem_onToggleCheckBox i w) =
       Disconnected (bound (cls (items w ! i))) (SetValue i) #
       PropertySet (bound (cls (items w ! i))) (widget (items w ! i)) #
       Emitted (bound (cls (items w ! i))) (widget (items w ! i)) #
       concat (map (delivery (bound (cls (items w ! i))) (widget (items w ! i)) (length (items w)))
                 (remove1 (SetValue i) (changed w (bound (cls (items w ! i)))))) @
       [Connected (bound (cls (items w ! i))) (SetValue i)]"
  by (rule new_events_append) (simp add: base_toggle_trace)

lemma onToggle_events:
  "new_events w (onToggleCheckBox i w) =
       new_events w (PropertyItem_onToggleCheckBox i w) @
       redraw (cls (items w ! i)) (((properties w)(bound (cls (items w ! i)) :=
         widget (items w ! i))) AutoRender)"
  by (simp add: new_events_def onToggle_trace base_toggle_trace base_toggle_properties)

lemma user_toggle_events:
  assumes "i < length (items w)"
  shows "new_events w (user_toggle i v w) =
       Disconnected (bound (cls (items w ! i))) (SetValue i) #
       PropertySet (bound (cls (items w ! i))) v #
       Emitted (bound (cls (items w ! i))) v #
       concat (map (delivery (bound (cls (items w ! i))) v (length (items w)))
                 (remove1 (SetValue i) (changed w (bound (cls (items w ! i)))))) @
       Connected (bound (cls (items w ! i))) (SetValue i) #
       redraw (cls (items w ! i)) (((properties w)(bound (cls (items w ! i)) := v)) AutoRender)"
  using assms by (intro new_events_append user_toggle_trace)

lemma store_set_events:
  "new_events w (store_set P v w) =
     PropertySet P v # Emitted P v #
       concat (map (delivery P v (length (items w))) (changed w P))"
  by (rule new_events_append) (simp add: store_set_trace)

lemma construct_events:
  "new_events w (snd (construct k w)) =
     [WidgetSetValue (length (items w)) (properties w (bound k)),
      Connected (bound k) (SetValue (length (items w)))]"
  by (rule new_events_append) (simp add: construct_trace)

lemma redraw_no_delivery [simp]: "Delivered P r u \<notin> set (redraw k a)"
  by (cases k; cases a; simp)

lemma redraw_no_widget_set [simp]: "WidgetSetValue i u \<notin> set (redraw k a)"
  by (cases k; cases a; simp)

lemma Subscribed_count:
  "Subscribed i w \<longleftrightarrow> count_list (changed w (bound (cls (items w ! i)))) (SetValue i) = 1"
  by (simp add: Subscribed_def subscriptions_def mapWindowPropertyChanged_def)



section \<open>The properties of the specification\<close>

text \<open>
  Claim C1. For every item and every user toggle of its check box, the toggle handler
  performs exactly these steps in this order: it disconnects the item's \<open>_setValue\<close>
  from the signal of the bound attribute, writes the value that the check box displays
  into the bound attribute, and connects the same \<open>_setValue\<close> to the signal again.
  The first part lists everything the base handler does: between the write and the
  connect there are only the firing of the signal and its deliveries. The second and
  third part say that the handler of every class, and so every user toggle, makes these
  three calls on the signal and the attribute and no others.
\<close>

theorem toggle_protocol_order:
  assumes "i < length (items w)"
  shows "new_events w (PropertyItem_onToggleCheckBox i w) =
           Disconnected (bound (cls (items w ! i))) (SetValue i) #
           PropertySet (bound (cls (items w ! i))) (widget_GetValue i w) #
           Emitted (bound (cls (items w ! i))) (widget_GetValue i w) #
           concat (map (delivery (bound (cls (items w ! i))) (widget_GetValue i w) (length (items w)))
                     (remove1 (SetValue i) (changed w (bound (cls (items w ! i)))))) @
           [Connected (bound (cls (items w ! i))) (SetValue i)]
       \<and> filter is_step (new_events w (onToggleCheckBox i w)) =
           [Disconnected (bound (cls (items w ! i))) (SetValue i),
            PropertySet (bound (cls (items w ! i))) (widget_GetValue i w),
            Connected (bound (cls (items w ! i))) (SetValue i)]
       \<and> filter is_step (new_events w (user_toggle i v w)) =
           [Disconnected (bound (cls (items w ! i))) (SetValue i),
            PropertySet (bound (cls (items w ! i))) v,
            Connected (bound (cls (items w ! i))) (SetValue i)]"
  using assms
  by (simp add: base_toggle_events onToggle_events user_toggle_events widget_GetValue_def)

text \<open>The same at a concrete world.\<close>

theorem toggle_protocol_order_witness:
  "2 < length (items scenario)
   \<and> new_events scenario (PropertyItem_onToggleCheckBox 2 scenario) =
       [Disconnected Resolution (SetValue 2), PropertySet Resolution False,
        Emitted Resolution False, Connected Resolution (SetValue 2)]
   \<and> filter is_step (new_events scenario (user_toggle 2 True scenario)) =
       [Disconnected Resolution (SetValue 2), PropertySet Resolution True,
        Connected Resolution (SetValue 2)]"
  using toggle_protocol_order [of 2 scenario True]
  by (simp add: scenario_length scenario_cls scenario_changed scenario_widget widget_GetValue_def)

text \<open>
  Claim C2. Let item \<open>i\<close> be subscribed, and let its bound attribute hold \<open>\<not> v\<close>.
  After a user toggle of its check box to \<open>v\<close>, the check box displays \<open>v\<close>, the
  attribute is \<open>v\<close>, the signal of the attribute has fired exactly once, the value
  was delivered to every other receiver connected to that signal, in connection order,
  and nothing was delivered to the \<open>_setValue\<close> of item \<open>i\<close> itself.
\<close>

theorem self_write_suppression:
  assumes "i < length (items w)" and "Subscribed i w" and "mapWindowProperty i w = (\<not> v)"
  shows "widget (items (user_toggle i v w) ! i) = v
       \<and> mapWindowProperty i (user_toggle i v w) = v
       \<and> filter is_emit (new_events w (user_toggle i v w)) =
           [Emitted (bound (cls (items w ! i))) v]
       \<and> filter is_delivery (new_events w (user_toggle i v w)) =
           map (\<lambda>r. Delivered (bound (cls (items w ! i))) r v)
             (filter (\<lambda>r. r \<noteq> SetValue i) (changed w (bound (cls (items w ! i)))))
       \<and> (\<forall>P u. Delivered P (SetValue i) u \<notin> set (new_events w (user_toggle i v w)))"
proof -
  from assms(2) have once: "count_list (changed w (bound (cls (items w ! i)))) (SetValue i) = 1"
    by (simp add: Subscribed_count)
  then have others: "remove1 (SetValue i) (changed w (bound (cls (items w ! i)))) =
      filter (\<lambda>r. r \<noteq> SetValue i) (changed w (bound (cls (items w ! i))))"
    by (simp add: count_once_remove1)
  from assms(1) have "widget (items (user_toggle i v w) ! i) = v"
    by (simp add: user_toggle_widget)
  moreover from assms(1) have "mapWindowProperty i (user_toggle i v w) = v"
    by (simp add: mapWindowProperty_def store_get_def user_toggle_properties)
  moreover have "filter is_emit (new_events w (user_toggle i v w)) =
      [Emitted (bound (cls (items w ! i))) v]"
    by (simp add: user_toggle_events [OF assms(1)])
  moreover have "filter is_delivery (new_events w (user_toggle i v w)) =
      map (\<lambda>r. Delivered (bound (cls (items w ! i))) r v)
        (filter (\<lambda>r. r \<noteq> SetValue i) (changed w (bound (cls (items w ! i)))))"
    by (simp add: user_toggle_events [OF assms(1)] others)
  moreover have "\<forall>P u. Delivered P (SetValue i) u \<notin> set (new_events w (user_toggle i v w))"
    by (simp add: user_toggle_events [OF assms(1)] deliveries_receiver others del: set_concat)
  ultimately show ?thesis by simp
qed

text \<open>The same at a concrete world.\<close>

theorem self_write_suppression_witness:
  "0 < length (items observed) \<and> Subscribed 0 observed
   \<and> mapWindowProperty 0 observed = (\<not> True)
   \<and> widget (items (user_toggle 0 True observed) ! 0) = True
   \<and> mapWindowProperty 0 (user_toggle 0 True observed) = True
   \<and> filter is_emit (new_events observed (user_toggle 0 True observed)) =
       [Emitted AutoRender True]
   \<and> filter is_delivery (new_events observed (user_toggle 0 True observed)) =
       [Delivered AutoRender (Observer 0) True]"
proof -
  have h1: "0 < length (items observed)"
    by (simp add: observed_fields scenario_length)
  have h2: "Subscribed 0 observed"
    by (simp add: Subscribed_count observed_fields scenario_cls)
  have h3: "mapWindowProperty 0 observed = (\<not> True)"
    by (simp add: mapWindowProperty_def store_get_def observed_fields scenario_properties)
  from self_write_suppression [OF h1 h2 h3] h1 h2 h3 show ?thesis
    by (simp add: observed_fields scenario_cls)
qed

text \<open>
  Claim C3. In every reachable world, one user toggle of the check box of an item
  causes exactly one write, to the bound attribute of the item; afterwards the check
  box displays the value the user selected, and during the toggle nothing calls
  \<open>SetValue\<close> on that check box: the value is neither applied a second time nor
  reverted by the dispatch of the toggle's own write.
\<close>

theorem no_feedback_loop:
  assumes "reachable w" and "i < length (items w)"
  shows "filter is_write (new_events w (user_toggle i v w)) =
           [PropertySet (bound (cls (items w ! i))) v]
       \<and> widget (items (user_toggle i v w) ! i) = v
       \<and> (\<forall>u. WidgetSetValue i u \<notin> set (new_events w (user_toggle i v w)))"
proof -
  from assms have "Subscribed i w"
    by (simp add: reachable_well_connected well_connected_Subscribed)
  then have "count_list (changed w (bound (cls (items w ! i)))) (SetValue i) = 1"
    by (simp add: Subscribed_count)
  then have gone: "SetValue i \<notin> set (remove1 (SetValue i) (changed w (bound (cls (items w ! i)))))"
    by (rule once_removed)
  have "filter is_write (new_events w (user_toggle i v w)) =
      [PropertySet (bound (cls (items w ! i))) v]"
    by (simp add: user_toggle_events [OF assms(2)])
  moreover from assms(2) have "widget (items (user_toggle i v w) ! i) = v"
    by (simp add: user_toggle_widget)
  moreover have "\<forall>u. WidgetSetValue i u \<notin> set (new_events w (user_toggle i v w))"
    using gone
    by (simp add: user_toggle_events [OF assms(2)] deliveries_widget_set del: set_concat)
  ultimately show ?thesis by simp
qed

text \<open>The same at a concrete world.\<close>

theorem no_feedback_loop_witness:
  "reachable scenario \<and> 2 < length (items scenario)
   \<and> filter is_write (new_events scenario (user_toggle 2 True scenario)) =
       [PropertySet Resolution True]
   \<and> widget (items (user_toggle 2 True scenario) ! 2) = True"
proof -
  have h: "2 < length (items scenario)" by (simp add: scenario_length)
  from no_feedback_loop [OF scenario_reachable h, of True] scenario_reachable h
  show ?thesis by (simp add: scenario_cls)
qed

text \<open>
  Claim C4. When a writer other than the items sets attribute \<open>P\<close> to \<open>v\<close>, every
  item whose \<open>_setValue\<close> is connected to the signal of \<open>P\<close> gets \<open>SetValue v\<close>
  called on its check box and displays \<open>v\<close> afterwards, and the only write to the
  store is the writer's own: no item writes back.
\<close>

theorem external_change_propagation:
  "(\<forall>i. i < length (items w) \<and> SetValue i \<in> set (changed w P) \<longrightarrow>
        widget (items (store_set P v w) ! i) = v
      \<and> WidgetSetValue i v \<in> set (new_events w (store_set P v w)))
   \<and> filter is_write (new_events w (store_set P v w)) = [PropertySet P v]
   \<and> store_get P (store_set P v w) = v"
  by (simp add: store_set_events store_set_widget deliveries_widget_set store_get_def
      store_set_properties del: set_concat)

text \<open>The same at a concrete world.\<close>

theorem external_change_propagation_witness:
  "2 < length (items scenario) \<and> SetValue 2 \<in> set (changed scenario Resolution)
   \<and> widget (items (store_set Resolution True scenario) ! 2) = True
   \<and> WidgetSetValue 2 True \<in> set (new_events scenario (store_set Resolution True scenario))
   \<and> filter is_write (new_events scenario (store_set Resolution True scenario)) =
       [PropertySet Resolution True]"
  using external_change_propagation [of scenario Resolution True]
  by (simp add: scenario_length scenario_changed)

text \<open>
  Claim C5. A user toggle of the check box of a \<open>ChBResolution\<close> item issues exactly
  one redraw request, a full re-render, if \<open>autoRender\<close> is true when the base handler
  has returned, and no redraw request if it is false. That value of \<open>autoRender\<close> is
  the one the store held before the toggle.
\<close>

theorem resolution_conditional_redraw:
  assumes "i < length (items w)" and "cls (items w ! i) = ChBResolution"
  shows "filter is_redraw (new_events w (user_toggle i v w)) =
           (if store_get AutoRender (PropertyItem_onToggleCheckBox i (clicked i v w))
            then [UpdateMap None] else [])
       \<and> store_get AutoRender (PropertyItem_onToggleCheckBox i (clicked i v w)) =
           store_get AutoRender w
       \<and> fullRerender None"
  using assms
  by (simp add: user_toggle_events store_get_def base_toggle_properties)

text \<open>The same at a concrete world.\<close>

theorem resolution_conditional_redraw_witness:
  "2 < length (items render_on) \<and> cls (items render_on ! 2) = ChBResolution
   \<and> store_get AutoRender render_on
   \<and> filter is_redraw (new_events render_on (user_toggle 2 True render_on)) = [UpdateMap None]
   \<and> \<not> store_get AutoRender scenario
   \<and> filter is_redraw (new_events scenario (user_toggle 2 True scenario)) = []"
  using resolution_conditional_redraw [of 2 render_on True]
    resolution_conditional_redraw [of 2 scenario True]
  by (simp add: render_on_fields scenario_length scenario_cls scenario_properties store_get_def)

text \<open>
  Claim C6. A user toggle of the check box of a \<open>ChBShowRegion\<close> item issues exactly
  one redraw request, carrying \<open>render=False\<close> and so not a full re-render, if
  \<open>autoRender\<close> is true when the base handler has returned, and no redraw request if
  it is false.
\<close>

theorem region_conditional_redraw:
  assumes "i < length (items w)" and "cls (items w ! i) = ChBShowRegion"
  shows "filter is_redraw (new_events w (user_toggle i v w)) =
           (if store_get AutoRender (PropertyItem_onToggleCheckBox i (clicked i v w))
            then [UpdateMap (Some False)] else [])
       \<and> store_get AutoRender (PropertyItem_onToggleCheckBox i (clicked i v w)) =
           store_get AutoRender w
       \<and> \<not> fullRerender (Some False)"
  using assms
  by (simp add: user_toggle_events store_get_def base_toggle_properties)

text \<open>The same at a concrete world.\<close>

theorem region_conditional_redraw_witness:
  "3 < length (items render_on) \<and> cls (items render_on ! 3) = ChBShowRegion
   \<and> store_get AutoRender render_on
   \<and> filter is_redraw (new_events render_on (user_toggle 3 True render_on)) =
       [UpdateMap (Some False)]
   \<and> \<not> store_get AutoRender scenario
   \<and> filter is_redraw (new_events scenario (user_toggle 3 True scenario)) = []"
  using region_conditional_redraw [of 3 render_on True]
    region_conditional_redraw [of 3 scenario True]
  by (simp add: render_on_fields scenario_length scenario_cls scenario_properties store_get_def)

text \<open>
  Claim C7. Constructing an item of any class while its bound attribute holds \<open>v\<close>
  ends with the new check box displaying \<open>v\<close>. No signal fires during construction,
  and the check box is seeded before the item connects to the signal: the construction
  consists of the call of \<open>SetValue v\<close> followed by the connect.
\<close>

theorem idempotent_seeding:
  assumes "store_get (bound k) w = v"
  shows "widget (items (snd (construct k w)) ! fst (construct k w)) = v
       \<and> filter is_emit (new_events w (snd (construct k w))) = []
       \<and> new_events w (snd (construct k w)) =
           [WidgetSetValue (fst (construct k w)) v,
            Connected (bound k) (SetValue (fst (construct k w)))]"
  using assms
  by (simp add: construct_fst construct_widget_new construct_events store_get_def)

text \<open>The same at a concrete world.\<close>

theorem idempotent_seeding_witness:
  "store_get (bound ChBResolution) (initial (\<lambda>P. P = Resolution)) = True
   \<and> widget (items (snd (construct ChBResolution (initial (\<lambda>P. P = Resolution)))) ! 0) = True
   \<and> new_events (initial (\<lambda>P. P = Resolution))
        (snd (construct ChBResolution (initial (\<lambda>P. P = Resolution)))) =
       [WidgetSetValue 0 True, Connected Resolution (SetValue 0)]"
proof -
  have h: "store_get (bound ChBResolution) (initial (\<lambda>P. P = Resolution)) = True"
    by (simp add: store_get_def initial_def)
  have n: "fst (construct ChBResolution (initial (\<lambda>P. P = Resolution))) = 0"
    by (simp only: construct_fst) (simp add: initial_def)
  from idempotent_seeding [OF h] h show ?thesis
    by (simp only: n) simp
qed

text \<open>
  Claim C8. A user toggle of the check box of a \<open>ChBRender\<close> or \<open>ChBAlignExtent\<close>
  item never issues a redraw request, whatever the attributes hold; a user toggle that
  does issue one belongs to a \<open>ChBResolution\<close> or \<open>ChBShowRegion\<close> item.
\<close>

theorem render_align_never_redraw:
  assumes "i < length (items w)"
  shows "(cls (items w ! i) = ChBRender \<or> cls (items w ! i) = ChBAlignExtent \<longrightarrow>
            filter is_redraw (new_events w (user_toggle i v w)) = [])
       \<and> (filter is_redraw (new_events w (user_toggle i v w)) \<noteq> [] \<longrightarrow>
            cls (items w ! i) = ChBResolution \<or> cls (items w ! i) = ChBShowRegion)"
  using assms
  by (cases "cls (items w ! i)") (simp_all add: user_toggle_events)

text \<open>The same at a concrete world.\<close>

theorem render_align_never_redraw_witness:
  "1 < length (items render_on) \<and> cls (items render_on ! 1) = ChBAlignExtent
   \<and> store_get AutoRender render_on
   \<and> filter is_redraw (new_events render_on (user_toggle 1 True render_on)) = []
   \<and> filter is_redraw (new_events scenario (user_toggle 0 True scenario)) = []"
  using render_align_never_redraw [of 1 render_on True]
    render_align_never_redraw [of 0 scenario True]
  by (simp add: render_on_fields scenario_length scenario_cls store_get_def)



text \<open>
  Claim C10. A user toggle of the check box of an item writes only the bound attribute
  of that item. Every other attribute has the same value after the toggle, redraw
  request included, as before it, and also in every world between the disconnect and
  the connect; the single write of the toggle is the one to the bound attribute.
\<close>

theorem toggle_writes_only_bound_property:
  assumes "i < length (items w)"
  shows "(\<forall>Q. Q \<noteq> bound (cls (items w ! i)) \<longrightarrow>
            store_get Q (user_toggle i v w) = store_get Q w)
       \<and> filter is_write (new_events w (user_toggle i v w)) =
           [PropertySet (bound (cls (items w ! i))) v]
       \<and> (\<forall>w' \<in> set (during_toggle i v w). \<forall>Q. Q \<noteq> bound (cls (items w ! i)) \<longrightarrow>
            store_get Q w' = store_get Q w)"
  using assms
  by (simp add: user_toggle_events user_toggle_properties store_get_def during_toggle_frame(4))

text \<open>The same at a concrete world.\<close>

theorem toggle_writes_only_bound_property_witness:
  "2 < length (items render_on)
   \<and> store_get AutoRender (user_toggle 2 True render_on) = store_get AutoRender render_on
   \<and> store_get ShowRegion (user_toggle 2 True render_on) = store_get ShowRegion render_on
   \<and> filter is_write (new_events render_on (user_toggle 2 True render_on)) =
       [PropertySet Resolution True]"
  using toggle_writes_only_bound_property [of 2 render_on True]
  by (simp add: render_on_fields scenario_cls)

end
